theory Spec2Isabelle
  imports Main "HOL-Library.Word"
begin

unbundle bit_operations_syntax

section \<open>Data model of \<^verbatim>\<open>engine/src/core/systems_manager.c\<close>\<close>

type_synonym u16 = "16 word"
type_synonym u32 = "32 word"
type_synonym u64 = "64 word"
type_synonym i32 = "32 word"

text \<open>
  The content of a C object: \<open>Indeterminate\<close> until the first assignment. The local
  \<^verbatim>\<open>k_system sys;\<close> of \<^verbatim>\<open>systems_manager_register\<close> is declared without an initialiser,
  so its fields start out this way.
\<close>

datatype 'a cval = Indeterminate | Val 'a

text \<open>A \<^verbatim>\<open>void*\<close>: null, or the block at an offset of the systems arena.\<close>

datatype ptr = Null | Block nat

text \<open>
  A function pointer is the C function it points to: one of the functions the file names,
  or any other function (\<open>user_function\<close>, by a number). A nullable function pointer
  (\<^verbatim>\<open>PFN_system_initialize\<close>, \<^verbatim>\<open>PFN_system_shutdown\<close>, \<^verbatim>\<open>PFN_system_update\<close>) is an option, \<open>None\<close>
  for \<^verbatim>\<open>0\<close>.
\<close>

datatype fn =
    memory_system_shutdown
  | console_initialize | console_shutdown
  | kvar_initialize | kvar_shutdown
  | event_system_initialize | event_system_shutdown
  | logging_initialize | logging_shutdown
  | input_system_initialize | input_system_shutdown
  | platform_system_startup | platform_system_shutdown
  | resource_system_initialize | resource_system_shutdown
  | shader_system_initialize | shader_system_shutdown
  | renderer_system_initialize | renderer_system_shutdown
  | job_system_initialize | job_system_shutdown | job_system_update
  | texture_system_initialize | texture_system_shutdown
  | font_system_initialize | font_system_shutdown
  | camera_system_initialize | camera_system_shutdown
  | render_view_system_initialize | render_view_system_shutdown
  | material_system_initialize | material_system_shutdown
  | geometry_system_initialize | geometry_system_shutdown
  | user_function nat

text \<open>The enumerators of \<^verbatim>\<open>k_system_type\<close> the file uses.\<close>

datatype k_system_type =
    K_SYSTEM_TYPE_MEMORY
  | K_SYSTEM_TYPE_CONSOLE
  | K_SYSTEM_TYPE_KVAR
  | K_SYSTEM_TYPE_EVENT
  | K_SYSTEM_TYPE_LOGGING
  | K_SYSTEM_TYPE_INPUT
  | K_SYSTEM_TYPE_PLATFORM
  | K_SYSTEM_TYPE_RESOURCE
  | K_SYSTEM_TYPE_SHADER
  | K_SYSTEM_TYPE_RENDERER
  | K_SYSTEM_TYPE_JOB
  | K_SYSTEM_TYPE_TEXTURE
  | K_SYSTEM_TYPE_FONT
  | K_SYSTEM_TYPE_CAMERA
  | K_SYSTEM_TYPE_RENDER_VIEW
  | K_SYSTEM_TYPE_MATERIAL
  | K_SYSTEM_TYPE_GEOMETRY

text \<open>
  What the headers that are not part of the file declare and the file only uses: the
  numeric value of each \<^verbatim>\<open>k_system_type\<close> enumerator (\<^verbatim>\<open>systems_manager.h\<close>) and the three
  \<^verbatim>\<open>JOB_TYPE_*\<close> flags (\<^verbatim>\<open>systems/job_system.h\<close>). They are parameters of the model.
\<close>

record header =
  k_system_type_id :: "k_system_type \<Rightarrow> u16"
  JOB_TYPE_GENERAL :: u32
  JOB_TYPE_RESOURCE_LOAD :: u32
  JOB_TYPE_GPU_RESOURCE :: u32

text \<open>
  The configuration structures are opaque to the file but for the fields it assigns.
  \<open>render_view_config\<close> is the view's \<^verbatim>\<open>name\<close>; \<open>font_system_config\<close> is passed on by address
  and stands for its content.
\<close>

type_synonym render_view_config = string
type_synonym font_system_config = nat

text \<open>
  \<^verbatim>\<open>application_config\<close>: \<open>app_name\<close> is the field \<^verbatim>\<open>name\<close>; \<open>render_views\<close> is the darray,
  \<^verbatim>\<open>darray_length\<close> its length.
\<close>

record application_config =
  app_name :: string
  start_pos_x :: int
  start_pos_y :: int
  start_width :: int
  start_height :: int
  font_config :: font_system_config
  render_views :: "render_view_config list"

text \<open>
  The \<^verbatim>\<open>void* config\<close> argument of a registration, by the structure it points to, with the
  fields the file assigns, in the order it assigns them:
  \<^item> \<open>PlatformSystemConfig application_name x y width height\<close>
  \<^item> \<open>ResourceSystemConfig asset_base_path max_loader_count\<close>
  \<^item> \<open>ShaderSystemConfig max_shader_count max_uniform_count max_global_textures max_instance_textures\<close>
  \<^item> \<open>RendererSystemConfig application_name\<close>
  \<^item> \<open>JobSystemConfig max_job_thread_count type_masks\<close>
  \<^item> \<open>TextureSystemConfig max_texture_count\<close>, \<open>CameraSystemConfig max_camera_count\<close>,
    \<open>RenderViewSystemConfig max_view_count\<close>, \<open>MaterialSystemConfig max_material_count\<close>,
    \<open>GeometrySystemConfig max_geometry_count\<close>
  \<^item> \<open>FontSystemConfig\<close>: \<^verbatim>\<open>&app_config->font_config\<close>
  \<^item> \<open>NoConfig\<close>: the null pointer.
\<close>

datatype config =
    NoConfig
  | PlatformSystemConfig string int int int int
  | ResourceSystemConfig string int
  | ShaderSystemConfig int int int int
  | RendererSystemConfig string
  | JobSystemConfig i32 "u32 list"
  | TextureSystemConfig int
  | FontSystemConfig font_system_config
  | CameraSystemConfig int
  | RenderViewSystemConfig int
  | MaterialSystemConfig int
  | GeometrySystemConfig int

text \<open>\<^verbatim>\<open>k_system\<close>: the dispatch triple, the state block and its size.\<close>

record k_system =
  initialize :: "fn option"
  shutdown :: "fn option"
  update :: "fn option"
  state :: "ptr cval"
  state_size :: "u64 cval"

text \<open>
  Modelled from the spec: the linear allocator (\<^verbatim>\<open>memory/linear_allocator.h\<close> is not part of
  the file). Section 4.1: an arena of fixed capacity and an offset cursor that only
  advances.
\<close>

record linear_allocator =
  total_size :: nat
  allocated :: nat

text \<open>
  \<^verbatim>\<open>systems_manager_state\<close>: the arena and the table \<^verbatim>\<open>systems[K_SYSTEM_TYPE_MAX_COUNT]\<close>; the
  length of the list is \<^verbatim>\<open>K_SYSTEM_TYPE_MAX_COUNT\<close>.
\<close>

record systems_manager_state =
  systems_allocator :: linear_allocator
  systems :: "k_system list"

section \<open>The world outside the file\<close>

datatype log_level = FATAL | ERROR | TRACE

datatype log_arg = ArgInt int | ArgStr string

text \<open>
  Every call that leaves the file is recorded, in the order the calls are made:
  \<^item> \<open>CallInitialize f size memory config\<close>: \<^verbatim>\<open>f(&sys.state_size, memory, config)\<close>, where \<open>size\<close> is
    what \<^verbatim>\<open>sys.state_size\<close> holds when the call is made;
  \<^item> \<open>CallShutdown f state\<close>: \<^verbatim>\<open>f(state)\<close>;
  \<^item> \<open>CallUpdate f state delta_time\<close>: \<^verbatim>\<open>f(state, delta_time)\<close>;
  \<^item> \<open>CallRenderViewSystemCreate view\<close>, \<open>CallRendererIsMultithreaded\<close>,
    \<open>CallPlatformGetProcessorCount\<close>: the three other functions the file calls;
  \<^item> \<open>Log level format args\<close>: \<^verbatim>\<open>KFATAL\<close>, \<^verbatim>\<open>KERROR\<close> and \<^verbatim>\<open>KTRACE\<close>.
\<close>

datatype event =
    CallInitialize fn "u64 cval" ptr config
  | CallShutdown fn "ptr cval"
  | CallUpdate fn "ptr cval" u32
  | CallRenderViewSystemCreate render_view_config
  | CallRendererIsMultithreaded
  | CallPlatformGetProcessorCount
  | Log log_level string "log_arg list"

text \<open>
  What the called functions answer. Each answer may depend on every call made so far
  (the first argument), so a subsystem may keep state of its own; the subsystems do not
  reach into \<^verbatim>\<open>systems_manager_state\<close>. An initialize call answers its result and what it
  leaves in \<^verbatim>\<open>*memory_requirement\<close>.
\<close>

record env =
  initialize_result :: "event list \<Rightarrow> fn \<Rightarrow> u64 cval \<Rightarrow> ptr \<Rightarrow> config \<Rightarrow> bool \<times> u64 cval"
  update_result :: "event list \<Rightarrow> fn \<Rightarrow> ptr cval \<Rightarrow> u32 \<Rightarrow> bool"
  render_view_system_create :: "event list \<Rightarrow> render_view_config \<Rightarrow> bool"
  renderer_is_multithreaded :: "event list \<Rightarrow> bool"
  platform_get_processor_count :: "event list \<Rightarrow> i32"

text \<open>
  Where C leaves the behaviour undefined, or the process ends inside a call, the model
  stops with a fault.
\<close>

datatype fault =
    OutOfBounds
  | NullFunctionCall
  | IndeterminateRead
  | SignedOverflow
  | ArenaExhausted

type_synonym outcome = "fault + bool \<times> systems_manager_state \<times> event list"

section \<open>The functions\<close>

text \<open>
  Modelled from the spec: \<^verbatim>\<open>linear_allocator_create\<close> and \<^verbatim>\<open>linear_allocator_allocate\<close> (not part
  of the file). Section 4.1: allocation advances the cursor by the size and hands out
  the block at the old cursor; it is process-fatal (\<open>None\<close>) when the cumulative
  allocation would exceed the capacity.
\<close>

definition linear_allocator_create :: "nat \<Rightarrow> linear_allocator" where
  "linear_allocator_create n = \<lparr>total_size = n, allocated = 0\<rparr>"

definition linear_allocator_allocate :: "linear_allocator \<Rightarrow> u64 \<Rightarrow> (ptr \<times> linear_allocator) option" where
  "linear_allocator_allocate a n =
     (if allocated a + unat n > total_size a then None
      else Some (Block (allocated a), a\<lparr>allocated := allocated a + unat n\<rparr>))"

text \<open>\<^verbatim>\<open>state->systems[type] = sys; return true;\<close>\<close>

definition store_system :: "systems_manager_state \<Rightarrow> u16 \<Rightarrow> k_system \<Rightarrow> event list \<Rightarrow> outcome" where
  "store_system st type sys tr =
     (if unat type < length (systems st)
      then Inr (True, st\<lparr>systems := (systems st)[unat type := sys]\<rparr>, tr)
      else Inl OutOfBounds)"

definition systems_manager_register ::
  "header \<Rightarrow> env \<Rightarrow> systems_manager_state \<Rightarrow> u16 \<Rightarrow> fn option \<Rightarrow> fn option \<Rightarrow> fn option \<Rightarrow> config \<Rightarrow>
   event list \<Rightarrow> outcome" where
  "systems_manager_register H E st type init sd up cfg tr =
     (let sys = \<lparr>initialize = init, shutdown = sd, update = up,
                 state = Indeterminate, state_size = Indeterminate\<rparr> in
      case initialize sys of
        Some f \<Rightarrow>
          (let (ok1, size1) = initialize_result E tr f (state_size sys) Null cfg;
               tr1 = tr @ [CallInitialize f (state_size sys) Null cfg];
               sys1 = sys\<lparr>state_size := size1\<rparr> in
           if \<not> ok1
           then Inr (False, st, tr1 @ [Log ERROR ''Failed to register system - initialize call failed.'' []])
           else
             (case state_size sys1 of
                Indeterminate \<Rightarrow> Inl IndeterminateRead
              | Val n \<Rightarrow>
                 (case linear_allocator_allocate (systems_allocator st) n of
                    None \<Rightarrow> Inl ArenaExhausted
                  | Some (block, a) \<Rightarrow>
                     (let st1 = st\<lparr>systems_allocator := a\<rparr>;
                          sys2 = sys1\<lparr>state := Val block\<rparr>;
                          (ok2, size2) = initialize_result E tr1 f (state_size sys2) block cfg;
                          tr2 = tr1 @ [CallInitialize f (state_size sys2) block cfg];
                          sys3 = sys2\<lparr>state_size := size2\<rparr> in
                      if \<not> ok2
                      then Inr (False, st1,
                                tr2 @ [Log ERROR ''Failed to register system - initialize call failed.'' []])
                      else store_system st1 type sys3 tr2))))
      | None \<Rightarrow>
          if type \<noteq> k_system_type_id H K_SYSTEM_TYPE_MEMORY
          then Inr (False, st,
                    tr @ [Log ERROR ''Initialize is required for types except K_SYSTEM_TYPE_MEMORY.'' []])
          else store_system st type sys tr)"

text \<open>
  The loop of \<^verbatim>\<open>systems_manager_update\<close> from index \<open>i\<close> on, over the slots that remain. The
  counter is a \<^verbatim>\<open>u32\<close> in the source; the table has fewer than \<open>2 ^ 32\<close> slots.
\<close>

primrec update_loop :: "env \<Rightarrow> u32 \<Rightarrow> nat \<Rightarrow> k_system list \<Rightarrow> event list \<Rightarrow> event list" where
  "update_loop E delta_time i [] tr = tr"
| "update_loop E delta_time i (s # ss) tr =
     update_loop E delta_time (Suc i) ss
       (case update s of
          None \<Rightarrow> tr
        | Some f \<Rightarrow>
            if \<not> update_result E tr f (state s) delta_time
            then tr @ [CallUpdate f (state s) delta_time,
                       Log ERROR ''System update failed for type: %i'' [ArgInt (int i)]]
            else tr @ [CallUpdate f (state s) delta_time])"

definition systems_manager_update :: "env \<Rightarrow> systems_manager_state \<Rightarrow> u32 \<Rightarrow> event list \<Rightarrow> bool \<times> event list" where
  "systems_manager_update E st delta_time tr = (True, update_loop E delta_time 0 (systems st) tr)"

text \<open>
  The pattern \<^verbatim>\<open>if (!systems_manager_register(...)) { KERROR(msg); return false; }\<close>, followed by
  the rest of the function.
\<close>

definition unless_failed ::
  "outcome \<Rightarrow> string \<Rightarrow> (systems_manager_state \<Rightarrow> event list \<Rightarrow> outcome) \<Rightarrow> outcome" where
  "unless_failed r msg rest =
     (case r of
        Inl e \<Rightarrow> Inl e
      | Inr (ok, st, tr) \<Rightarrow>
          if \<not> ok then Inr (False, st, tr @ [Log ERROR msg []]) else rest st tr)"

text \<open>\<^verbatim>\<open>const i32 max_thread_count = 15;\<close>\<close>

definition max_thread_count :: i32 where
  "max_thread_count = 15"

text \<open>
  Lines 190 to 206 of \<^verbatim>\<open>register_known_systems_pre_boot\<close>: the array \<^verbatim>\<open>job_thread_types\<close>, filled
  with the general mask and then adjusted. The two comparisons are the source's: they
  read \<^verbatim>\<open>max_thread_count\<close>.
\<close>

definition job_thread_types :: "header \<Rightarrow> bool \<Rightarrow> u32 list" where
  "job_thread_types H renderer_multithreaded =
     (let types = replicate 15 (JOB_TYPE_GENERAL H) in
      if max_thread_count = 1 \<or> \<not> renderer_multithreaded
      then types[0 := types ! 0 OR (JOB_TYPE_GPU_RESOURCE H OR JOB_TYPE_RESOURCE_LOAD H)]
      else if max_thread_count = 2
      then (let types1 = types[0 := types ! 0 OR JOB_TYPE_GPU_RESOURCE H]
            in types1[1 := types1 ! 1 OR JOB_TYPE_RESOURCE_LOAD H])
      else (types[0 := JOB_TYPE_GPU_RESOURCE H])[1 := JOB_TYPE_RESOURCE_LOAD H])"

text \<open>
  Lines 170 to 216 of \<^verbatim>\<open>register_known_systems_pre_boot\<close>: the thread count, the work-type
  masks and the registration of the job system. \<^verbatim>\<open>platform_get_processor_count() - 1\<close> is a
  signed subtraction, undefined at the least \<^verbatim>\<open>i32\<close>.
\<close>

definition register_job_system :: "header \<Rightarrow> env \<Rightarrow> systems_manager_state \<Rightarrow> event list \<Rightarrow> outcome" where
  "register_job_system H E st tr =
     (let renderer_multithreaded = renderer_is_multithreaded E tr;
          tr1 = tr @ [CallRendererIsMultithreaded];
          processor_count = platform_get_processor_count E tr1;
          tr2 = tr1 @ [CallPlatformGetProcessorCount] in
      if sint processor_count = - (2 ^ 31) then Inl SignedOverflow
      else
        (let thread_count = processor_count - 1 in
         if thread_count <s 1
         then Inr (False, st,
                   tr2 @ [Log FATAL ''Error: Platform reported processor count (minus one for main thread) as %i. Need at least one additional thread for the job system.''
                            [ArgInt (sint thread_count)]])
         else
           (let tr3 = tr2 @ [Log TRACE ''Available threads: %i'' [ArgInt (sint thread_count)]];
                (thread_count1, tr4) =
                  (if max_thread_count <s thread_count
                   then (max_thread_count,
                         tr3 @ [Log TRACE ''Available threads on the system is %i, but will be capped at %i.''
                                  [ArgInt (sint thread_count), ArgInt (sint max_thread_count)]])
                   else (thread_count, tr3))
            in unless_failed
                 (systems_manager_register H E st (k_system_type_id H K_SYSTEM_TYPE_JOB)
                    (Some job_system_initialize) (Some job_system_shutdown) (Some job_system_update)
                    (JobSystemConfig thread_count1 (job_thread_types H renderer_multithreaded)) tr4)
                 ''Failed to register job system.''
                 (\<lambda>st tr. Inr (True, st, tr)))))"

definition register_known_systems_pre_boot ::
  "header \<Rightarrow> env \<Rightarrow> systems_manager_state \<Rightarrow> application_config \<Rightarrow> event list \<Rightarrow> outcome" where
  "register_known_systems_pre_boot H E st app_config tr =
     unless_failed
       (systems_manager_register H E st (k_system_type_id H K_SYSTEM_TYPE_MEMORY)
          None (Some memory_system_shutdown) None NoConfig tr)
       ''Failed to register memory system.'' (\<lambda>st tr.
     unless_failed
       (systems_manager_register H E st (k_system_type_id H K_SYSTEM_TYPE_CONSOLE)
          (Some console_initialize) (Some console_shutdown) None NoConfig tr)
       ''Failed to register console system.'' (\<lambda>st tr.
     unless_failed
       (systems_manager_register H E st (k_system_type_id H K_SYSTEM_TYPE_KVAR)
          (Some kvar_initialize) (Some kvar_shutdown) None NoConfig tr)
       ''Failed to register KVar system.'' (\<lambda>st tr.
     unless_failed
       (systems_manager_register H E st (k_system_type_id H K_SYSTEM_TYPE_EVENT)
          (Some event_system_initialize) (Some event_system_shutdown) None NoConfig tr)
       ''Failed to register event system.'' (\<lambda>st tr.
     unless_failed
       (systems_manager_register H E st (k_system_type_id H K_SYSTEM_TYPE_LOGGING)
          (Some logging_initialize) (Some logging_shutdown) None NoConfig tr)
       ''Failed to register logging system.'' (\<lambda>st tr.
     unless_failed
       (systems_manager_register H E st (k_system_type_id H K_SYSTEM_TYPE_INPUT)
          (Some input_system_initialize) (Some input_system_shutdown) None NoConfig tr)
       ''Failed to register input system.'' (\<lambda>st tr.
     unless_failed
       (systems_manager_register H E st (k_system_type_id H K_SYSTEM_TYPE_PLATFORM)
          (Some platform_system_startup) (Some platform_system_shutdown) None
          (PlatformSystemConfig (app_name app_config) (start_pos_x app_config) (start_pos_y app_config)
             (start_width app_config) (start_height app_config)) tr)
       ''Failed to register platform system.'' (\<lambda>st tr.
     unless_failed
       (systems_manager_register H E st (k_system_type_id H K_SYSTEM_TYPE_RESOURCE)
          (Some resource_system_initialize) (Some resource_system_shutdown) None
          (ResourceSystemConfig ''../assets'' 32) tr)
       ''Failed to register resource system.'' (\<lambda>st tr.
     unless_failed
       (systems_manager_register H E st (k_system_type_id H K_SYSTEM_TYPE_SHADER)
          (Some shader_system_initialize) (Some shader_system_shutdown) None
          (ShaderSystemConfig 1024 128 31 31) tr)
       ''Failed to register shader system.'' (\<lambda>st tr.
     unless_failed
       (systems_manager_register H E st (k_system_type_id H K_SYSTEM_TYPE_RENDERER)
          (Some renderer_system_initialize) (Some renderer_system_shutdown) None
          (RendererSystemConfig (app_name app_config)) tr)
       ''Failed to register renderer system.'' (\<lambda>st tr.
     register_job_system H E st tr))))))))))"

text \<open>
  \<^verbatim>\<open>state->systems[T].shutdown(state->systems[T].state);\<close> A call through a null function
  pointer is undefined.
\<close>

definition shutdown_slot ::
  "header \<Rightarrow> systems_manager_state \<Rightarrow> k_system_type \<Rightarrow> event list \<Rightarrow> fault + event list" where
  "shutdown_slot H st t tr =
     (let i = unat (k_system_type_id H t) in
      if i < length (systems st)
      then (case shutdown (systems st ! i) of
              None \<Rightarrow> Inl NullFunctionCall
            | Some f \<Rightarrow> Inr (tr @ [CallShutdown f (state (systems st ! i))]))
      else Inl OutOfBounds)"

primrec shutdown_each ::
  "header \<Rightarrow> systems_manager_state \<Rightarrow> k_system_type list \<Rightarrow> event list \<Rightarrow> fault + event list" where
  "shutdown_each H st [] tr = Inr tr"
| "shutdown_each H st (t # ts) tr =
     (case shutdown_slot H st t tr of
        Inl e \<Rightarrow> Inl e
      | Inr tr1 \<Rightarrow> shutdown_each H st ts tr1)"

text \<open>The statements of \<^verbatim>\<open>shutdown_known_systems\<close>, one enumerator each, first to last.\<close>

definition shutdown_known_systems ::
  "header \<Rightarrow> systems_manager_state \<Rightarrow> event list \<Rightarrow> fault + event list" where
  "shutdown_known_systems H st tr =
     shutdown_each H st
       [K_SYSTEM_TYPE_CAMERA, K_SYSTEM_TYPE_FONT,
        K_SYSTEM_TYPE_RENDER_VIEW, K_SYSTEM_TYPE_GEOMETRY, K_SYSTEM_TYPE_MATERIAL, K_SYSTEM_TYPE_TEXTURE,
        K_SYSTEM_TYPE_JOB, K_SYSTEM_TYPE_SHADER, K_SYSTEM_TYPE_RENDERER,
        K_SYSTEM_TYPE_RESOURCE, K_SYSTEM_TYPE_PLATFORM, K_SYSTEM_TYPE_INPUT, K_SYSTEM_TYPE_LOGGING,
        K_SYSTEM_TYPE_EVENT, K_SYSTEM_TYPE_KVAR, K_SYSTEM_TYPE_CONSOLE,
        K_SYSTEM_TYPE_MEMORY] tr"

text \<open>
  The loop over \<^verbatim>\<open>app_config->render_views\<close> of \<^verbatim>\<open>register_known_systems_post_boot\<close>, over the
  views that remain (fewer than \<open>2 ^ 32\<close>, the range of the loop counter).
\<close>

primrec create_render_views :: "env \<Rightarrow> render_view_config list \<Rightarrow> event list \<Rightarrow> bool \<times> event list" where
  "create_render_views E [] tr = (True, tr)"
| "create_render_views E (view # views) tr =
     (if \<not> render_view_system_create E tr view
      then (False, tr @ [CallRenderViewSystemCreate view,
                         Log FATAL ''Failed to create view '%s'. Aborting application.'' [ArgStr view]])
      else create_render_views E views (tr @ [CallRenderViewSystemCreate view]))"

definition register_known_systems_post_boot ::
  "header \<Rightarrow> env \<Rightarrow> systems_manager_state \<Rightarrow> application_config \<Rightarrow> event list \<Rightarrow> outcome" where
  "register_known_systems_post_boot H E st app_config tr =
     unless_failed
       (systems_manager_register H E st (k_system_type_id H K_SYSTEM_TYPE_TEXTURE)
          (Some texture_system_initialize) (Some texture_system_shutdown) None
          (TextureSystemConfig 65536) tr)
       ''Failed to register texture system.'' (\<lambda>st tr.
     unless_failed
       (systems_manager_register H E st (k_system_type_id H K_SYSTEM_TYPE_FONT)
          (Some font_system_initialize) (Some font_system_shutdown) None
          (FontSystemConfig (font_config app_config)) tr)
       ''Failed to register font system.'' (\<lambda>st tr.
     unless_failed
       (systems_manager_register H E st (k_system_type_id H K_SYSTEM_TYPE_CAMERA)
          (Some camera_system_initialize) (Some camera_system_shutdown) None
          (CameraSystemConfig 61) tr)
       ''Failed to register camera system.'' (\<lambda>st tr.
     unless_failed
       (systems_manager_register H E st (k_system_type_id H K_SYSTEM_TYPE_RENDER_VIEW)
          (Some render_view_system_initialize) (Some render_view_system_shutdown) None
          (RenderViewSystemConfig 251) tr)
       ''Failed to register render view system.'' (\<lambda>st tr.
     (case create_render_views E (render_views app_config) tr of
        (False, tr1) \<Rightarrow> Inr (False, st, tr1)
      | (True, tr1) \<Rightarrow>
     unless_failed
       (systems_manager_register H E st (k_system_type_id H K_SYSTEM_TYPE_MATERIAL)
          (Some material_system_initialize) (Some material_system_shutdown) None
          (MaterialSystemConfig 4096) tr1)
       ''Failed to register material system.'' (\<lambda>st tr.
     unless_failed
       (systems_manager_register H E st (k_system_type_id H K_SYSTEM_TYPE_GEOMETRY)
          (Some geometry_system_initialize) (Some geometry_system_shutdown) None
          (GeometrySystemConfig 4096) tr)
       ''Failed to register geometry system.'' (\<lambda>st tr.
     Inr (True, st, tr))))))))"

text \<open>
  The entry points. \<^verbatim>\<open>systems_manager_initialize\<close> creates the arena of \<^verbatim>\<open>MEBIBYTES(64)\<close> first.
\<close>

definition systems_manager_initialize ::
  "header \<Rightarrow> env \<Rightarrow> systems_manager_state \<Rightarrow> application_config \<Rightarrow> event list \<Rightarrow> outcome" where
  "systems_manager_initialize H E st app_config tr =
     register_known_systems_pre_boot H E
       (st\<lparr>systems_allocator := linear_allocator_create (64 * 1024 * 1024)\<rparr>) app_config tr"

definition systems_manager_post_boot_initialize ::
  "header \<Rightarrow> env \<Rightarrow> systems_manager_state \<Rightarrow> application_config \<Rightarrow> event list \<Rightarrow> outcome" where
  "systems_manager_post_boot_initialize H E st app_config tr =
     register_known_systems_post_boot H E st app_config tr"

definition systems_manager_shutdown ::
  "header \<Rightarrow> systems_manager_state \<Rightarrow> event list \<Rightarrow> fault + event list" where
  "systems_manager_shutdown H st tr = shutdown_known_systems H st tr"

section \<open>The boot order as the specification words it\<close>

text \<open>
  Sections 4.3 and 7 describe a boot pass as a list of steps run in order, the first step
  that fails ending the pass with a false result. A step registers one subsystem
  (\<open>Registration\<close>, with the arguments and the message of the failure), derives the thread
  count and registers the job system (\<open>JobSchedulingRegistration\<close>), or creates one render
  view (\<open>RenderViewCreation\<close>).

  The job-scheduling step in the words of section 4.3, on integers: it asks the renderer
  whether it is multithreaded and the platform for the processor count, lets \<open>n\<close> be the
  count minus one, fails fatally without registering anything when \<open>n\<close> is below 1, and
  otherwise registers the job-scheduling type with \<open>n\<close> capped at 15 threads. The masks
  it passes are those of \<open>job_thread_types\<close>.
\<close>

datatype step =
    Registration k_system_type "fn option" "fn option" "fn option" config string
  | JobSchedulingRegistration
  | RenderViewCreation render_view_config

datatype step_kind = Registers k_system_type | CreatesView render_view_config

fun kind_of :: "step \<Rightarrow> step_kind" where
  "kind_of (Registration t init sd up cfg msg) = Registers t"
| "kind_of JobSchedulingRegistration = Registers K_SYSTEM_TYPE_JOB"
| "kind_of (RenderViewCreation view) = CreatesView view"

definition registration_step ::
  "header \<Rightarrow> env \<Rightarrow> k_system_type \<Rightarrow> fn option \<Rightarrow> fn option \<Rightarrow> fn option \<Rightarrow> config \<Rightarrow> string \<Rightarrow>
   systems_manager_state \<Rightarrow> event list \<Rightarrow> outcome" where
  "registration_step H E t init sd up cfg msg st tr =
     (case systems_manager_register H E st (k_system_type_id H t) init sd up cfg tr of
        Inl e \<Rightarrow> Inl e
      | Inr (ok, st1, tr1) \<Rightarrow> Inr (ok, st1, if ok then tr1 else tr1 @ [Log ERROR msg []]))"

fun run_step :: "header \<Rightarrow> env \<Rightarrow> step \<Rightarrow> systems_manager_state \<Rightarrow> event list \<Rightarrow> outcome" where
  "run_step H E (Registration t init sd up cfg msg) st tr =
     registration_step H E t init sd up cfg msg st tr"
| "run_step H E JobSchedulingRegistration st tr =
     (let multithreaded = renderer_is_multithreaded E tr;
          processors = sint (platform_get_processor_count E (tr @ [CallRendererIsMultithreaded]));
          asked = tr @ [CallRendererIsMultithreaded, CallPlatformGetProcessorCount];
          n = processors - 1
      in if n < 1
         then Inr (False, st,
                   asked @ [Log FATAL ''Error: Platform reported processor count (minus one for main thread) as %i. Need at least one additional thread for the job system.''
                              [ArgInt n]])
         else registration_step H E K_SYSTEM_TYPE_JOB
                (Some job_system_initialize) (Some job_system_shutdown) (Some job_system_update)
                (JobSystemConfig (word_of_int (min n 15)) (job_thread_types H multithreaded))
                ''Failed to register job system.'' st
                (asked @ Log TRACE ''Available threads: %i'' [ArgInt n] #
                   (if 15 < n
                    then [Log TRACE ''Available threads on the system is %i, but will be capped at %i.''
                            [ArgInt n, ArgInt 15]]
                    else [])))"
| "run_step H E (RenderViewCreation view) st tr =
     (let ok = render_view_system_create E tr view
      in Inr (ok, st,
              if ok then tr @ [CallRenderViewSystemCreate view]
              else tr @ [CallRenderViewSystemCreate view,
                         Log FATAL ''Failed to create view '%s'. Aborting application.'' [ArgStr view]]))"

primrec run_steps :: "header \<Rightarrow> env \<Rightarrow> step list \<Rightarrow> systems_manager_state \<Rightarrow> event list \<Rightarrow> outcome" where
  "run_steps H E [] st tr = Inr (True, st, tr)"
| "run_steps H E (s # ss) st tr =
     (case run_step H E s st tr of
        Inl e \<Rightarrow> Inl e
      | Inr (ok, st1, tr1) \<Rightarrow> if ok then run_steps H E ss st1 tr1 else Inr (False, st1, tr1))"

definition pre_boot_steps :: "application_config \<Rightarrow> step list" where
  "pre_boot_steps app_config =
     [Registration K_SYSTEM_TYPE_MEMORY None (Some memory_system_shutdown) None NoConfig
        ''Failed to register memory system.'',
      Registration K_SYSTEM_TYPE_CONSOLE (Some console_initialize) (Some console_shutdown) None NoConfig
        ''Failed to register console system.'',
      Registration K_SYSTEM_TYPE_KVAR (Some kvar_initialize) (Some kvar_shutdown) None NoConfig
        ''Failed to register KVar system.'',
      Registration K_SYSTEM_TYPE_EVENT (Some event_system_initialize) (Some event_system_shutdown) None
        NoConfig ''Failed to register event system.'',
      Registration K_SYSTEM_TYPE_LOGGING (Some logging_initialize) (Some logging_shutdown) None NoConfig
        ''Failed to register logging system.'',
      Registration K_SYSTEM_TYPE_INPUT (Some input_system_initialize) (Some input_system_shutdown) None
        NoConfig ''Failed to register input system.'',
      Registration K_SYSTEM_TYPE_PLATFORM (Some platform_system_startup) (Some platform_system_shutdown)
        None
        (PlatformSystemConfig (app_name app_config) (start_pos_x app_config) (start_pos_y app_config)
           (start_width app_config) (start_height app_config))
        ''Failed to register platform system.'',
      Registration K_SYSTEM_TYPE_RESOURCE (Some resource_system_initialize)
        (Some resource_system_shutdown) None (ResourceSystemConfig ''../assets'' 32)
        ''Failed to register resource system.'',
      Registration K_SYSTEM_TYPE_SHADER (Some shader_system_initialize) (Some shader_system_shutdown) None
        (ShaderSystemConfig 1024 128 31 31) ''Failed to register shader system.'',
      Registration K_SYSTEM_TYPE_RENDERER (Some renderer_system_initialize)
        (Some renderer_system_shutdown) None (RendererSystemConfig (app_name app_config))
        ''Failed to register renderer system.'',
      JobSchedulingRegistration]"

definition post_boot_steps :: "application_config \<Rightarrow> step list" where
  "post_boot_steps app_config =
     [Registration K_SYSTEM_TYPE_TEXTURE (Some texture_system_initialize) (Some texture_system_shutdown)
        None (TextureSystemConfig 65536) ''Failed to register texture system.'',
      Registration K_SYSTEM_TYPE_FONT (Some font_system_initialize) (Some font_system_shutdown) None
        (FontSystemConfig (font_config app_config)) ''Failed to register font system.'',
      Registration K_SYSTEM_TYPE_CAMERA (Some camera_system_initialize) (Some camera_system_shutdown) None
        (CameraSystemConfig 61) ''Failed to register camera system.'',
      Registration K_SYSTEM_TYPE_RENDER_VIEW (Some render_view_system_initialize)
        (Some render_view_system_shutdown) None (RenderViewSystemConfig 251)
        ''Failed to register render view system.'']
     @ map RenderViewCreation (render_views app_config)
     @ [Registration K_SYSTEM_TYPE_MATERIAL (Some material_system_initialize)
          (Some material_system_shutdown) None (MaterialSystemConfig 4096)
          ''Failed to register material system.'',
        Registration K_SYSTEM_TYPE_GEOMETRY (Some geometry_system_initialize)
          (Some geometry_system_shutdown) None (GeometrySystemConfig 4096)
          ''Failed to register geometry system.'']"

text \<open>
  Section 4.5, the shutdown order: camera, font, render-view, geometry, material, texture,
  job-scheduling, shader, renderer, resource-loading, platform, input, logging, events,
  configuration-variables, console, memory.
\<close>

definition shutdown_order :: "k_system_type list" where
  "shutdown_order =
     [K_SYSTEM_TYPE_CAMERA, K_SYSTEM_TYPE_FONT, K_SYSTEM_TYPE_RENDER_VIEW, K_SYSTEM_TYPE_GEOMETRY,
      K_SYSTEM_TYPE_MATERIAL, K_SYSTEM_TYPE_TEXTURE, K_SYSTEM_TYPE_JOB, K_SYSTEM_TYPE_SHADER,
      K_SYSTEM_TYPE_RENDERER, K_SYSTEM_TYPE_RESOURCE, K_SYSTEM_TYPE_PLATFORM, K_SYSTEM_TYPE_INPUT,
      K_SYSTEM_TYPE_LOGGING, K_SYSTEM_TYPE_EVENT, K_SYSTEM_TYPE_KVAR, K_SYSTEM_TYPE_CONSOLE,
      K_SYSTEM_TYPE_MEMORY]"

section \<open>The update pass as the specification words it\<close>

text \<open>
  Section 4.4. What the pass does for slot \<open>i\<close>, the calls made so far being \<open>before\<close>:
  nothing when the slot has no update function; otherwise the call of the update function
  with the slot's state and the delta time, followed by the logged error with the index
  \<open>i\<close> exactly when the call returns false.
\<close>

definition slot_update_events :: "env \<Rightarrow> u32 \<Rightarrow> event list \<Rightarrow> nat \<Rightarrow> k_system \<Rightarrow> event list" where
  "slot_update_events E delta_time before i s =
     (case update s of
        None \<Rightarrow> []
      | Some f \<Rightarrow>
          CallUpdate f (state s) delta_time #
          (if update_result E before f (state s) delta_time then []
           else [Log ERROR ''System update failed for type: %i'' [ArgInt (int i)]]))"

text \<open>The calls made once the pass is through the first \<open>k\<close> slots of the table.\<close>

primrec update_pass_trace :: "env \<Rightarrow> u32 \<Rightarrow> k_system list \<Rightarrow> event list \<Rightarrow> nat \<Rightarrow> event list" where
  "update_pass_trace E delta_time ss tr 0 = tr"
| "update_pass_trace E delta_time ss tr (Suc k) =
     (let before = update_pass_trace E delta_time ss tr k
      in before @ slot_update_events E delta_time before k (ss ! k))"

section \<open>Reading an outcome and a trace\<close>

text \<open>The \<^verbatim>\<open>b8\<close> a function returned, the state it left and the calls made, if it returned.\<close>

definition returned :: "outcome \<Rightarrow> bool option" where
  "returned r = (case r of Inl e \<Rightarrow> None | Inr (ok, st, tr) \<Rightarrow> Some ok)"

definition state_after :: "outcome \<Rightarrow> systems_manager_state option" where
  "state_after r = (case r of Inl e \<Rightarrow> None | Inr (ok, st, tr) \<Rightarrow> Some st)"

definition trace_after :: "outcome \<Rightarrow> event list option" where
  "trace_after r = (case r of Inl e \<Rightarrow> None | Inr (ok, st, tr) \<Rightarrow> Some tr)"

fun is_update_call :: "event \<Rightarrow> bool" where
  "is_update_call (CallUpdate f s delta_time) = True"
| "is_update_call e = False"

fun is_update_failure_log :: "event \<Rightarrow> bool" where
  "is_update_failure_log (Log level format args) =
     (level = ERROR \<and> format = ''System update failed for type: %i'')"
| "is_update_failure_log e = False"

text \<open>The call the update pass makes for a slot, if it makes one.\<close>

definition update_call_of :: "u32 \<Rightarrow> k_system \<Rightarrow> event option" where
  "update_call_of delta_time s = map_option (\<lambda>f. CallUpdate f (state s) delta_time) (update s)"

text \<open>The call the shutdown pass makes for the slot of a type.\<close>

definition shutdown_call_of :: "header \<Rightarrow> systems_manager_state \<Rightarrow> k_system_type \<Rightarrow> event" where
  "shutdown_call_of H st t =
     CallShutdown (the (shutdown (systems st ! unat (k_system_type_id H t))))
       (state (systems st ! unat (k_system_type_id H t)))"

definition populated :: "header \<Rightarrow> systems_manager_state \<Rightarrow> k_system_type \<Rightarrow> bool" where
  "populated H st t =
     (unat (k_system_type_id H t) < length (systems st) \<and>
      shutdown (systems st ! unat (k_system_type_id H t)) \<noteq> None)"

section \<open>A concrete instance\<close>

text \<open>
  An instance of the parameters, for evaluating the functions: enumerators numbered from
  0, three distinct flag bits, an arena of 1024 bytes, a zeroed table of 17 slots, and
  subsystems whose initialize calls report 8 bytes and succeed.
\<close>

fun example_type_id :: "k_system_type \<Rightarrow> u16" where
  "example_type_id K_SYSTEM_TYPE_MEMORY = 0"
| "example_type_id K_SYSTEM_TYPE_CONSOLE = 1"
| "example_type_id K_SYSTEM_TYPE_KVAR = 2"
| "example_type_id K_SYSTEM_TYPE_EVENT = 3"
| "example_type_id K_SYSTEM_TYPE_LOGGING = 4"
| "example_type_id K_SYSTEM_TYPE_INPUT = 5"
| "example_type_id K_SYSTEM_TYPE_PLATFORM = 6"
| "example_type_id K_SYSTEM_TYPE_RESOURCE = 7"
| "example_type_id K_SYSTEM_TYPE_SHADER = 8"
| "example_type_id K_SYSTEM_TYPE_RENDERER = 9"
| "example_type_id K_SYSTEM_TYPE_JOB = 10"
| "example_type_id K_SYSTEM_TYPE_TEXTURE = 11"
| "example_type_id K_SYSTEM_TYPE_FONT = 12"
| "example_type_id K_SYSTEM_TYPE_CAMERA = 13"
| "example_type_id K_SYSTEM_TYPE_RENDER_VIEW = 14"
| "example_type_id K_SYSTEM_TYPE_MATERIAL = 15"
| "example_type_id K_SYSTEM_TYPE_GEOMETRY = 16"

definition example_header :: header where
  "example_header =
     \<lparr>k_system_type_id = example_type_id, JOB_TYPE_GENERAL = 2,
      JOB_TYPE_RESOURCE_LOAD = 4, JOB_TYPE_GPU_RESOURCE = 8\<rparr>"

text \<open>
  \<open>example_env p m\<close>: \<open>p\<close> logical processors, a renderer that is multithreaded if \<open>m\<close>; every
  update call fails.
\<close>

definition example_env :: "i32 \<Rightarrow> bool \<Rightarrow> env" where
  "example_env p m =
     \<lparr>initialize_result = (\<lambda>tr f size memory cfg. (True, Val 8)),
      update_result = (\<lambda>tr f s delta_time. False),
      render_view_system_create = (\<lambda>tr view. True),
      renderer_is_multithreaded = (\<lambda>tr. m),
      platform_get_processor_count = (\<lambda>tr. p)\<rparr>"

text \<open>
  Subsystems whose second initialize call fails (\<open>second_fails\<close>), or leaves 16 where the
  first call left 8 (\<open>resizing_env\<close>), or whose first initialize call fails (\<open>first_fails\<close>),
  a render view system that creates no view (\<open>view_creation_fails\<close>), and update functions
  of which \<open>user_function 1\<close> alone fails (\<open>first_update_fails\<close>).
\<close>

definition second_fails :: env where
  "second_fails =
     (example_env 8 True)\<lparr>initialize_result := (\<lambda>tr f size memory cfg. (memory = Null, Val 8))\<rparr>"

definition resizing_env :: env where
  "resizing_env =
     (example_env 8 True)\<lparr>initialize_result :=
        (\<lambda>tr f size memory cfg. (True, if memory = Null then Val 8 else Val 16))\<rparr>"

definition zeroed_system :: k_system where
  "zeroed_system =
     \<lparr>initialize = None, shutdown = None, update = None, state = Val Null, state_size = Val 0\<rparr>"

definition example_state :: systems_manager_state where
  "example_state =
     \<lparr>systems_allocator = linear_allocator_create 1024, systems = replicate 17 zeroed_system\<rparr>"

definition example_app :: application_config where
  "example_app =
     \<lparr>app_name = ''app'', start_pos_x = 0, start_pos_y = 0, start_width = 1280, start_height = 720,
      font_config = 0, render_views = [''world'', ''ui'']\<rparr>"

definition first_update_fails :: env where
  "first_update_fails =
     (example_env 8 True)\<lparr>update_result := (\<lambda>tr f s delta_time. f \<noteq> user_function 1)\<rparr>"

definition view_creation_fails :: env where
  "view_creation_fails =
     (example_env 8 True)\<lparr>render_view_system_create := (\<lambda>tr view. False)\<rparr>"

definition first_fails :: env where
  "first_fails =
     (example_env 8 True)\<lparr>initialize_result := (\<lambda>tr f size memory cfg. (False, size))\<rparr>"

text \<open>The instance after the console system alone is registered.\<close>

definition console_registered :: systems_manager_state where
  "console_registered =
     (case systems_manager_register example_header (example_env 8 True) example_state
             (k_system_type_id example_header K_SYSTEM_TYPE_CONSOLE)
             (Some console_initialize) (Some console_shutdown) None NoConfig [] of
        Inl e \<Rightarrow> example_state
      | Inr (ok, st, tr) \<Rightarrow> st)"

text \<open>The instance with 8 processors after both boot passes.\<close>

definition booted :: systems_manager_state where
  "booted =
     (case register_known_systems_pre_boot example_header (example_env 8 True) example_state example_app [] of
        Inl e \<Rightarrow> example_state
      | Inr (ok, st, tr) \<Rightarrow>
          (case register_known_systems_post_boot example_header (example_env 8 True) st example_app tr of
             Inl e \<Rightarrow> example_state
           | Inr (ok1, st1, tr1) \<Rightarrow> st1))"

text \<open>A table of three slots, the first and the last with an update function.\<close>

definition two_updaters :: systems_manager_state where
  "two_updaters =
     \<lparr>systems_allocator = linear_allocator_create 1024,
      systems =
        [zeroed_system\<lparr>update := Some (user_function 1), state := Val (Block 0)\<rparr>,
         zeroed_system,
         zeroed_system\<lparr>update := Some (user_function 2), state := Val (Block 8)\<rparr>]\<rparr>"

section \<open>Facts about registration\<close>

lemma register_some_cases:
  "systems_manager_register H E st type (Some f) sd up cfg tr = Inr (ok, st', tr') \<Longrightarrow>
   (\<not> ok \<and> \<not> fst (initialize_result E tr f Indeterminate Null cfg) \<and> st' = st \<and>
    tr' = tr @ [CallInitialize f Indeterminate Null cfg,
                Log ERROR ''Failed to register system - initialize call failed.'' []]) \<or>
   (\<exists>n block a. initialize_result E tr f Indeterminate Null cfg = (True, Val n) \<and>
      linear_allocator_allocate (systems_allocator st) n = Some (block, a) \<and>
      ok = fst (initialize_result E (tr @ [CallInitialize f Indeterminate Null cfg]) f (Val n) block cfg) \<and>
      tr' = tr @ [CallInitialize f Indeterminate Null cfg, CallInitialize f (Val n) block cfg] @
            (if ok then [] else [Log ERROR ''Failed to register system - initialize call failed.'' []]) \<and>
      (if ok
       then unat type < length (systems st) \<and>
            st' = st\<lparr>systems_allocator := a,
                     systems := (systems st)[unat type :=
                       \<lparr>initialize = Some f, shutdown = sd, update = up, state = Val block,
                        state_size = snd (initialize_result E (tr @ [CallInitialize f Indeterminate Null cfg])
                                            f (Val n) block cfg)\<rparr>]\<rparr>
       else st' = st\<lparr>systems_allocator := a\<rparr>))"
  by (auto simp add: systems_manager_register_def store_system_def Let_def
           split: prod.splits if_splits cval.splits option.splits)

lemma register_none_cases:
  "systems_manager_register H E st type None sd up cfg tr = Inr (ok, st', tr') \<Longrightarrow>
   (if ok
    then type = k_system_type_id H K_SYSTEM_TYPE_MEMORY \<and> unat type < length (systems st) \<and> tr' = tr \<and>
         st' = st\<lparr>systems := (systems st)[unat type :=
                   \<lparr>initialize = None, shutdown = sd, update = up, state = Indeterminate,
                    state_size = Indeterminate\<rparr>]\<rparr>
    else type \<noteq> k_system_type_id H K_SYSTEM_TYPE_MEMORY \<and> st' = st)"
  by (auto simp add: systems_manager_register_def store_system_def Let_def split: if_splits)

lemma register_table_irrelevant:
  "length ss = length (systems st) \<Longrightarrow>
   systems_manager_register H E (st\<lparr>systems := ss\<rparr>) type init sd up cfg tr =
   map_sum id (\<lambda>(ok, st', tr').
       (ok, st'\<lparr>systems := (if ok then ss[unat type := systems st' ! unat type] else ss)\<rparr>, tr'))
     (systems_manager_register H E st type init sd up cfg tr)"
  by (cases init)
     (auto simp add: systems_manager_register_def store_system_def Let_def
           split: prod.splits if_splits cval.splits option.splits)

section \<open>The update pass\<close>

lemma update_loop_trace:
  "\<exists>new. update_loop E delta_time i ss tr = tr @ new \<and>
         filter is_update_call new = List.map_filter (update_call_of delta_time) ss \<and>
         list_all (\<lambda>e. is_update_call e \<or> is_update_failure_log e) new"
proof (induction ss arbitrary: i tr)
  case Nil
  show ?case by (simp add: List.map_filter_simps)
next
  case (Cons s ss)
  show ?case
  proof (cases "update s")
    case None
    then have "update_call_of delta_time s = None" by (simp add: update_call_of_def)
    with None Cons.IH [of "Suc i" tr] show ?thesis
      by (simp add: List.map_filter_simps)
  next
    case (Some f)
    let ?call = "CallUpdate f (state s) delta_time"
    let ?log = "Log ERROR ''System update failed for type: %i'' [ArgInt (int i)]"
    from Some have call: "update_call_of delta_time s = Some ?call" by (simp add: update_call_of_def)
    show ?thesis
    proof (cases "update_result E tr f (state s) delta_time")
      case True
      from Cons.IH [of "Suc i" "tr @ [?call]"] obtain new where
        "update_loop E delta_time (Suc i) ss (tr @ [?call]) = (tr @ [?call]) @ new"
        "filter is_update_call new = List.map_filter (update_call_of delta_time) ss"
        "list_all (\<lambda>e. is_update_call e \<or> is_update_failure_log e) new" by blast
      with Some True call show ?thesis
        by (intro exI [of _ "?call # new"]) (simp add: List.map_filter_simps)
    next
      case False
      from Cons.IH [of "Suc i" "tr @ [?call, ?log]"] obtain new where
        "update_loop E delta_time (Suc i) ss (tr @ [?call, ?log]) = (tr @ [?call, ?log]) @ new"
        "filter is_update_call new = List.map_filter (update_call_of delta_time) ss"
        "list_all (\<lambda>e. is_update_call e \<or> is_update_failure_log e) new" by blast
      with Some False call show ?thesis
        by (intro exI [of _ "?call # ?log # new"]) (simp add: List.map_filter_simps)
    qed
  qed
qed

lemma update_loop_append:
  "update_loop E delta_time i (xs @ ys) tr =
   update_loop E delta_time (i + length xs) ys (update_loop E delta_time i xs tr)"
  by (induction xs arbitrary: i tr) simp_all

lemma update_loop_slot:
  "update_loop E delta_time i [s] tr = tr @ slot_update_events E delta_time tr i s"
  by (simp add: slot_update_events_def split: option.splits)

lemma update_loop_take:
  "k \<le> length ss \<Longrightarrow>
   update_loop E delta_time 0 (take k ss) tr = update_pass_trace E delta_time ss tr k"
proof (induction k)
  case 0
  show ?case by simp
next
  case (Suc k)
  then have "take (Suc k) ss = take k ss @ [ss ! k]" and "length (take k ss) = k"
    by (simp_all add: take_Suc_conv_app_nth)
  with Suc show ?case
    by (simp add: update_loop_append update_loop_slot Let_def del: update_loop.simps)
qed

text \<open>
  C5. The update pass goes through the slots in index order. For a slot without an update
  function it does nothing; for a slot with one it calls the function with the slot's
  state and the delta time, and logs the error with the slot's index exactly when the
  call returns false; then it goes on to the next slot. So the update calls of the pass
  are, in order, those of the slots with an update function, whatever the calls return,
  and the pass makes no other call than these and the logged errors.
\<close>

theorem update_pass_calls_every_updater:
  "snd (systems_manager_update E st delta_time tr) =
     update_pass_trace E delta_time (systems st) tr (length (systems st)) \<and>
   (\<exists>new. snd (systems_manager_update E st delta_time tr) = tr @ new \<and>
         filter is_update_call new = List.map_filter (update_call_of delta_time) (systems st) \<and>
         list_all (\<lambda>e. is_update_call e \<or> is_update_failure_log e) new)"
  using update_loop_trace [of E delta_time 0 "systems st" tr]
    update_loop_take [of "length (systems st)" "systems st" E delta_time tr]
  by (simp add: systems_manager_update_def)

theorem update_pass_calls_every_updater_witness:
  "snd (systems_manager_update first_update_fails two_updaters 16 []) =
     [CallUpdate (user_function 1) (Val (Block 0)) 16,
      Log ERROR ''System update failed for type: %i'' [ArgInt 0],
      CallUpdate (user_function 2) (Val (Block 8)) 16] \<and>
   update_pass_trace first_update_fails 16 (systems two_updaters) [] (length (systems two_updaters)) =
     [CallUpdate (user_function 1) (Val (Block 0)) 16,
      Log ERROR ''System update failed for type: %i'' [ArgInt 0],
      CallUpdate (user_function 2) (Val (Block 8)) 16] \<and>
   update_result first_update_fails [] (user_function 1) (Val (Block 0)) 16 = False \<and>
   (\<exists>new. snd (systems_manager_update first_update_fails two_updaters 16 []) = [] @ new \<and>
         filter is_update_call new = List.map_filter (update_call_of 16) (systems two_updaters) \<and>
         list_all (\<lambda>e. is_update_call e \<or> is_update_failure_log e) new)"
proof -
  have spec: "update_pass_trace first_update_fails 16 (systems two_updaters) []
      (length (systems two_updaters)) =
     [CallUpdate (user_function 1) (Val (Block 0)) 16,
      Log ERROR ''System update failed for type: %i'' [ArgInt 0],
      CallUpdate (user_function 2) (Val (Block 8)) 16]"
    by code_simp
  have fails: "update_result first_update_fails [] (user_function 1) (Val (Block 0)) 16 = False"
    by (simp add: first_update_fails_def)
  note pass = update_pass_calls_every_updater [of first_update_fails two_updaters 16 "[]"]
  from pass spec have run: "snd (systems_manager_update first_update_fails two_updaters 16 []) =
     [CallUpdate (user_function 1) (Val (Block 0)) 16,
      Log ERROR ''System update failed for type: %i'' [ArgInt 0],
      CallUpdate (user_function 2) (Val (Block 8)) 16]"
    by (simp only:)
  from pass run spec fails show ?thesis by blast
qed

text \<open>
  C9. \<^verbatim>\<open>systems_manager_update\<close> returns true for every table and every delta time, whatever
  the update calls return.
\<close>

theorem systems_manager_update_returns_true:
  "fst (systems_manager_update E st delta_time tr) = True"
  by (simp add: systems_manager_update_def)

theorem systems_manager_update_returns_true_witness:
  "fst (systems_manager_update (example_env 8 True) two_updaters 16 []) = True \<and>
   update_result (example_env 8 True) [] (user_function 1) (Val (Block 0)) 16 = False"
proof -
  have "update_result (example_env 8 True) [] (user_function 1) (Val (Block 0)) 16 = False"
    by (simp add: example_env_def)
  with systems_manager_update_returns_true [of "example_env 8 True" two_updaters 16 "[]"]
  show ?thesis by simp
qed

section \<open>Registration failures\<close>

text \<open>
  C8. A registration with a null initialize function and a type other than
  \<^verbatim>\<open>K_SYSTEM_TYPE_MEMORY\<close> returns false and leaves the state, the table with it, as it was.
\<close>

theorem register_null_initialize_rejected:
  assumes "type \<noteq> k_system_type_id H K_SYSTEM_TYPE_MEMORY"
  shows "\<exists>tr'. systems_manager_register H E st type None sd up cfg tr = Inr (False, st, tr')"
  using assms by (simp add: systems_manager_register_def)

theorem register_null_initialize_rejected_witness:
  "(1 :: u16) \<noteq> k_system_type_id example_header K_SYSTEM_TYPE_MEMORY \<and>
   (\<exists>tr'. systems_manager_register example_header (example_env 8 True) example_state 1
             None (Some console_shutdown) None NoConfig [] = Inr (False, example_state, tr'))"
proof -
  have h: "(1 :: u16) \<noteq> k_system_type_id example_header K_SYSTEM_TYPE_MEMORY"
    by (simp add: example_header_def)
  from h register_null_initialize_rejected [OF h] show ?thesis by blast
qed

text \<open>
  C6. When the first initialize call (null buffer) fails, the registration returns false
  and the state is as it was: the table and the cursor of the arena. When the first call
  reports \<open>n\<close> bytes, the arena hands out a block for them and the second call (with the
  block) fails, the registration returns false, the table is as it was, and the arena is
  left as the allocation left it: its cursor stays advanced by \<open>n\<close>.
\<close>

theorem register_initialize_failure:
  "(\<not> fst (initialize_result E tr f Indeterminate Null cfg) \<longrightarrow>
      (\<exists>tr'. systems_manager_register H E st type (Some f) sd up cfg tr = Inr (False, st, tr'))) \<and>
   (initialize_result E tr f Indeterminate Null cfg = (True, Val n) \<and>
    linear_allocator_allocate (systems_allocator st) n = Some (block, a) \<and>
    \<not> fst (initialize_result E (tr @ [CallInitialize f Indeterminate Null cfg]) f (Val n) block cfg) \<longrightarrow>
      (\<exists>tr'. systems_manager_register H E st type (Some f) sd up cfg tr =
               Inr (False, st\<lparr>systems_allocator := a\<rparr>, tr')) \<and>
      systems (st\<lparr>systems_allocator := a\<rparr>) = systems st \<and>
      allocated a = allocated (systems_allocator st) + unat n)"
  by (auto simp add: systems_manager_register_def linear_allocator_allocate_def Let_def
           split: prod.splits if_splits)

theorem register_initialize_failure_witness:
  "(\<exists>tr'. systems_manager_register example_header first_fails example_state 1
            (Some console_initialize) (Some console_shutdown) None NoConfig [] =
          Inr (False, example_state, tr')) \<and>
   (\<exists>tr'. systems_manager_register example_header second_fails example_state 1
            (Some console_initialize) (Some console_shutdown) None NoConfig [] =
          Inr (False, example_state\<lparr>systems_allocator := \<lparr>total_size = 1024, allocated = 8\<rparr>\<rparr>, tr')) \<and>
   allocated (systems_allocator example_state) = 0"
proof -
  have first: "\<not> fst (initialize_result first_fails [] console_initialize Indeterminate Null NoConfig)"
    by (simp add: first_fails_def example_env_def)
  have second: "initialize_result second_fails [] console_initialize Indeterminate Null NoConfig = (True, Val 8) \<and>
    linear_allocator_allocate (systems_allocator example_state) 8 =
      Some (Block 0, \<lparr>total_size = 1024, allocated = 8\<rparr>) \<and>
    \<not> fst (initialize_result second_fails ([] @ [CallInitialize console_initialize Indeterminate Null NoConfig])
            console_initialize (Val 8) (Block 0) NoConfig)"
    by (simp add: second_fails_def example_env_def example_state_def linear_allocator_create_def
          linear_allocator_allocate_def)
  have zero: "allocated (systems_allocator example_state) = 0"
    by (simp add: example_state_def linear_allocator_create_def)
  from first
    register_initialize_failure [of first_fails "[]" console_initialize NoConfig example_header
      example_state 1 "Some console_shutdown" None 8 "Block 0" "\<lparr>total_size = 1024, allocated = 8\<rparr>"]
  have "\<exists>tr'. systems_manager_register example_header first_fails example_state 1
            (Some console_initialize) (Some console_shutdown) None NoConfig [] =
          Inr (False, example_state, tr')"
    by blast
  moreover from second
    register_initialize_failure [of second_fails "[]" console_initialize NoConfig example_header
      example_state 1 "Some console_shutdown" None 8 "Block 0" "\<lparr>total_size = 1024, allocated = 8\<rparr>"]
  have "\<exists>tr'. systems_manager_register example_header second_fails example_state 1
            (Some console_initialize) (Some console_shutdown) None NoConfig [] =
          Inr (False, example_state\<lparr>systems_allocator := \<lparr>total_size = 1024, allocated = 8\<rparr>\<rparr>, tr')"
    by blast
  ultimately show ?thesis using zero by blast
qed

section \<open>Registering a type twice\<close>

lemma register_on_populated_slot:
  assumes "systems_manager_register H E (st\<lparr>systems := (systems st)[unat type := s]\<rparr>)
             type init sd up cfg tr = Inr (True, st0, tr0)"
  shows "\<exists>st'. systems_manager_register H E st type init sd up cfg tr = Inr (True, st', tr0) \<and>
           systems st' = (systems st)[unat type := systems st0 ! unat type] \<and>
           systems_allocator st' = systems_allocator st0 \<and>
           initialize (systems st' ! unat type) = init \<and>
           shutdown (systems st' ! unat type) = sd \<and>
           update (systems st' ! unat type) = up"
proof -
  let ?r = "systems_manager_register H E st type init sd up cfg tr"
  from assms register_table_irrelevant [of "(systems st)[unat type := s]" st H E type init sd up cfg tr]
  obtain st' where r: "?r = Inr (True, st', tr0)"
    and st0: "st0 = st'\<lparr>systems := (systems st)[unat type := s, unat type := systems st' ! unat type]\<rparr>"
    by (cases ?r) (auto split: prod.splits)
  have slot: "unat type < length (systems st) \<and>
     systems st' = (systems st)[unat type := systems st' ! unat type] \<and>
     initialize (systems st' ! unat type) = init \<and>
     shutdown (systems st' ! unat type) = sd \<and>
     update (systems st' ! unat type) = up"
  proof (cases init)
    case None
    with r register_none_cases [of H E st type sd up cfg tr True st' tr0] show ?thesis by auto
  next
    case (Some f)
    with r register_some_cases [of H E st type f sd up cfg tr True st' tr0] show ?thesis by auto
  qed
  with st0 have "systems st0 ! unat type = systems st' ! unat type" by simp
  with r st0 slot show ?thesis by simp
qed

text \<open>
  C2, as stated, fails: on the instance with the console system registered, a second
  registration of the console type, with the arguments of the first, returns true, and the
  slot, which was populated, holds a new state block.
\<close>

theorem register_twice_accepted:
  "returned (systems_manager_register example_header (example_env 8 True) example_state 1
       (Some console_initialize) (Some console_shutdown) None NoConfig []) = Some True \<and>
   systems console_registered ! 1 =
     \<lparr>initialize = Some console_initialize, shutdown = Some console_shutdown, update = None,
      state = Val (Block 0), state_size = Val 8\<rparr> \<and>
   returned (systems_manager_register example_header (example_env 8 True) console_registered 1
       (Some console_initialize) (Some console_shutdown) None NoConfig []) = Some True \<and>
   map_option (\<lambda>st. systems st ! 1)
     (state_after (systems_manager_register example_header (example_env 8 True) console_registered 1
       (Some console_initialize) (Some console_shutdown) None NoConfig [])) =
     Some \<lparr>initialize = Some console_initialize, shutdown = Some console_shutdown, update = None,
           state = Val (Block 8), state_size = Val 8\<rparr>"
  by code_simp

text \<open>
  C2, amended. \<^verbatim>\<open>systems_manager_register\<close> does not look at the slot. If a registration of
  type \<open>t\<close> returns true on the table with slot \<open>t\<close> zeroed, the same registration returns
  true on the table with slot \<open>t\<close> populated, with the same calls and the same arena; it
  overwrites slot \<open>t\<close> with the entry the first registration stores, the dispatch triple
  being the one passed, and leaves every other slot as it was.
\<close>

theorem register_ignores_populated_slot:
  assumes "returned (systems_manager_register H E (st\<lparr>systems := (systems st)[unat type := zeroed_system]\<rparr>)
             type init sd up cfg tr) = Some True"
  shows "returned (systems_manager_register H E st type init sd up cfg tr) = Some True \<and>
         trace_after (systems_manager_register H E st type init sd up cfg tr) =
           trace_after (systems_manager_register H E (st\<lparr>systems := (systems st)[unat type := zeroed_system]\<rparr>)
             type init sd up cfg tr) \<and>
         map_option systems_allocator (state_after (systems_manager_register H E st type init sd up cfg tr)) =
           map_option systems_allocator
             (state_after (systems_manager_register H E (st\<lparr>systems := (systems st)[unat type := zeroed_system]\<rparr>)
                type init sd up cfg tr)) \<and>
         map_option systems (state_after (systems_manager_register H E st type init sd up cfg tr)) =
           map_option (\<lambda>st0. (systems st)[unat type := systems st0 ! unat type])
             (state_after (systems_manager_register H E (st\<lparr>systems := (systems st)[unat type := zeroed_system]\<rparr>)
                type init sd up cfg tr)) \<and>
         map_option (\<lambda>st'. initialize (systems st' ! unat type))
           (state_after (systems_manager_register H E st type init sd up cfg tr)) = Some init \<and>
         map_option (\<lambda>st'. shutdown (systems st' ! unat type))
           (state_after (systems_manager_register H E st type init sd up cfg tr)) = Some sd \<and>
         map_option (\<lambda>st'. update (systems st' ! unat type))
           (state_after (systems_manager_register H E st type init sd up cfg tr)) = Some up"
proof -
  from assms obtain st0 tr0 where
    "systems_manager_register H E (st\<lparr>systems := (systems st)[unat type := zeroed_system]\<rparr>)
       type init sd up cfg tr = Inr (True, st0, tr0)"
    by (auto simp add: returned_def split: sum.splits)
  with register_on_populated_slot [OF this] show ?thesis
    by (auto simp add: returned_def trace_after_def state_after_def)
qed

theorem register_ignores_populated_slot_witness:
  "returned (systems_manager_register example_header (example_env 8 True) console_registered 1
       (Some kvar_initialize) (Some kvar_shutdown) None NoConfig []) = Some True \<and>
   map_option (\<lambda>st'. shutdown (systems st' ! unat (1 :: u16)))
     (state_after (systems_manager_register example_header (example_env 8 True) console_registered 1
        (Some kvar_initialize) (Some kvar_shutdown) None NoConfig [])) = Some (Some kvar_shutdown) \<and>
   shutdown (systems console_registered ! unat (1 :: u16)) = Some console_shutdown"
proof -
  have h: "returned (systems_manager_register example_header (example_env 8 True)
       (console_registered\<lparr>systems := (systems console_registered)[unat (1 :: u16) := zeroed_system]\<rparr>) 1
       (Some kvar_initialize) (Some kvar_shutdown) None NoConfig []) = Some True"
    by code_simp
  have "shutdown (systems console_registered ! unat (1 :: u16)) = Some console_shutdown"
    by code_simp
  with register_ignores_populated_slot [OF h] show ?thesis by blast
qed

section \<open>The two initialize calls\<close>

text \<open>
  C4, as stated, fails: with a subsystem whose initialize leaves 8 in the size on the first
  call and 16 on the second, the registration returns true, 8 bytes are allocated, and the
  slot's \<^verbatim>\<open>state_size\<close> is 16.
\<close>

theorem state_size_altered_by_second_call:
  "initialize_result resizing_env [] console_initialize Indeterminate Null NoConfig = (True, Val 8) \<and>
   returned (systems_manager_register example_header resizing_env example_state 1
       (Some console_initialize) (Some console_shutdown) None NoConfig []) = Some True \<and>
   map_option (\<lambda>st. (state_size (systems st ! 1), allocated (systems_allocator st)))
     (state_after (systems_manager_register example_header resizing_env example_state 1
       (Some console_initialize) (Some console_shutdown) None NoConfig [])) = Some (Val 16, 8) \<and>
   allocated (systems_allocator example_state) = 0"
  by code_simp

text \<open>
  C4, amended. When a registration with a non-null initialize returns true, the first call
  (null buffer) reported a size \<open>n\<close>, the block passed to the second call is the block of
  \<open>n\<close> bytes allocated from the arena, the slot's state is that block, and the slot's
  \<^verbatim>\<open>state_size\<close> is what the second call leaves in the size: \<open>n\<close> if the second call leaves it
  alone.
\<close>

theorem register_sizing_protocol:
  assumes "systems_manager_register H E st type (Some f) sd up cfg tr = Inr (True, st', tr')"
  shows "\<exists>n block.
           initialize_result E tr f Indeterminate Null cfg = (True, Val n) \<and>
           linear_allocator_allocate (systems_allocator st) n = Some (block, systems_allocator st') \<and>
           allocated (systems_allocator st') = allocated (systems_allocator st) + unat n \<and>
           tr' = tr @ [CallInitialize f Indeterminate Null cfg, CallInitialize f (Val n) block cfg] \<and>
           state (systems st' ! unat type) = Val block \<and>
           state_size (systems st' ! unat type) =
             snd (initialize_result E (tr @ [CallInitialize f Indeterminate Null cfg]) f (Val n) block cfg)"
  using register_some_cases [OF assms]
  by (auto simp add: linear_allocator_allocate_def split: if_splits)

theorem register_sizing_protocol_witness:
  "systems_manager_register example_header (example_env 8 True) example_state 1
       (Some console_initialize) (Some console_shutdown) None NoConfig [] =
     Inr (True, console_registered,
          [CallInitialize console_initialize Indeterminate Null NoConfig,
           CallInitialize console_initialize (Val 8) (Block 0) NoConfig]) \<and>
   (\<exists>n block.
      initialize_result (example_env 8 True) [] console_initialize Indeterminate Null NoConfig = (True, Val n) \<and>
      linear_allocator_allocate (systems_allocator example_state) n =
        Some (block, systems_allocator console_registered) \<and>
      allocated (systems_allocator console_registered) = allocated (systems_allocator example_state) + unat n \<and>
      [CallInitialize console_initialize Indeterminate Null NoConfig,
       CallInitialize console_initialize (Val 8) (Block 0) NoConfig] =
        [] @ [CallInitialize console_initialize Indeterminate Null NoConfig,
              CallInitialize console_initialize (Val n) block NoConfig] \<and>
      state (systems console_registered ! unat (1 :: u16)) = Val block \<and>
      state_size (systems console_registered ! unat (1 :: u16)) =
        snd (initialize_result (example_env 8 True)
               ([] @ [CallInitialize console_initialize Indeterminate Null NoConfig])
               console_initialize (Val n) block NoConfig))"
proof -
  have h: "systems_manager_register example_header (example_env 8 True) example_state 1
       (Some console_initialize) (Some console_shutdown) None NoConfig [] =
     Inr (True, console_registered,
          [CallInitialize console_initialize Indeterminate Null NoConfig,
           CallInitialize console_initialize (Val 8) (Block 0) NoConfig])"
    by code_simp
  from h register_sizing_protocol [OF h] show ?thesis by blast
qed

section \<open>The shutdown pass\<close>

lemma shutdown_each_trace:
  "shutdown_each H st ts tr = Inr tr' \<Longrightarrow>
   tr' = tr @ map (shutdown_call_of H st) ts \<and> list_all (populated H st) ts"
proof (induction ts arbitrary: tr)
  case Nil
  then show ?case by simp
next
  case (Cons t ts)
  from Cons.prems obtain tr1 where
    slot: "shutdown_slot H st t tr = Inr tr1" and rest: "shutdown_each H st ts tr1 = Inr tr'"
    by (auto split: sum.splits)
  from slot have "tr1 = tr @ [shutdown_call_of H st t] \<and> populated H st t"
    by (auto simp add: shutdown_slot_def shutdown_call_of_def populated_def Let_def
             split: if_splits option.splits)
  with Cons.IH [OF rest] show ?case by simp
qed

lemma shutdown_each_populated:
  "list_all (populated H st) ts \<Longrightarrow>
   shutdown_each H st ts tr = Inr (tr @ map (shutdown_call_of H st) ts)"
proof (induction ts arbitrary: tr)
  case Nil
  then show ?case by simp
next
  case (Cons t ts)
  from Cons.prems have "shutdown_slot H st t tr = Inr (tr @ [shutdown_call_of H st t])"
    by (auto simp add: shutdown_slot_def shutdown_call_of_def populated_def Let_def)
  with Cons show ?case by simp
qed

lemma shutdown_known_systems_order:
  "shutdown_known_systems H st tr = shutdown_each H st shutdown_order tr"
  by (simp add: shutdown_known_systems_def shutdown_order_def)

text \<open>
  C3, as stated, fails on the count: on the instance after both boot passes the shutdown
  pass makes seventeen calls, not sixteen.
\<close>

theorem shutdown_makes_seventeen_calls:
  "map_sum id length (systems_manager_shutdown example_header booted []) = Inr 17 \<and>
   map_sum id length (systems_manager_shutdown example_header booted []) \<noteq> Inr 16"
  by code_simp

text \<open>
  C3, amended. When the seventeen slots of the shutdown order are populated, whatever the
  order they were registered in, the shutdown pass calls each slot's shutdown function on
  that slot's state, in the order camera, font, render-view, geometry, material, texture,
  job-scheduling, shader, renderer, resource-loading, platform, input, logging, events,
  configuration-variables, console, memory: seventeen calls, no type twice, and no slot
  twice since the enumerators have different values.
\<close>

theorem shutdown_reverse_order:
  assumes "list_all (populated H st) shutdown_order"
    and "inj_on (k_system_type_id H) (set shutdown_order)"
  shows "systems_manager_shutdown H st tr = Inr (tr @ map (shutdown_call_of H st) shutdown_order) \<and>
         shutdown_order =
           [K_SYSTEM_TYPE_CAMERA, K_SYSTEM_TYPE_FONT, K_SYSTEM_TYPE_RENDER_VIEW, K_SYSTEM_TYPE_GEOMETRY,
            K_SYSTEM_TYPE_MATERIAL, K_SYSTEM_TYPE_TEXTURE, K_SYSTEM_TYPE_JOB, K_SYSTEM_TYPE_SHADER,
            K_SYSTEM_TYPE_RENDERER, K_SYSTEM_TYPE_RESOURCE, K_SYSTEM_TYPE_PLATFORM, K_SYSTEM_TYPE_INPUT,
            K_SYSTEM_TYPE_LOGGING, K_SYSTEM_TYPE_EVENT, K_SYSTEM_TYPE_KVAR, K_SYSTEM_TYPE_CONSOLE,
            K_SYSTEM_TYPE_MEMORY] \<and>
         length shutdown_order = 17 \<and>
         distinct shutdown_order \<and>
         distinct (map (k_system_type_id H) shutdown_order)"
proof -
  have d: "distinct shutdown_order" by (simp add: shutdown_order_def)
  have "length shutdown_order = 17" by (simp add: shutdown_order_def)
  moreover have "systems_manager_shutdown H st tr = Inr (tr @ map (shutdown_call_of H st) shutdown_order)"
    using shutdown_each_populated [OF assms(1)]
    by (simp add: systems_manager_shutdown_def shutdown_known_systems_order)
  moreover from d assms(2) have "distinct (map (k_system_type_id H) shutdown_order)"
    by (simp add: distinct_map)
  ultimately show ?thesis using d by (simp add: shutdown_order_def)
qed

theorem shutdown_reverse_order_witness:
  "list_all (populated example_header booted) shutdown_order \<and>
   inj_on (k_system_type_id example_header) (set shutdown_order) \<and>
   systems_manager_shutdown example_header booted [] =
     Inr ([] @ map (shutdown_call_of example_header booted) shutdown_order) \<and>
   length shutdown_order = 17 \<and>
   distinct (map (k_system_type_id example_header) shutdown_order) \<and>
   map (shutdown_call_of example_header booted) shutdown_order =
     [CallShutdown camera_system_shutdown (Val (Block 96)),
      CallShutdown font_system_shutdown (Val (Block 88)),
      CallShutdown render_view_system_shutdown (Val (Block 104)),
      CallShutdown geometry_system_shutdown (Val (Block 120)),
      CallShutdown material_system_shutdown (Val (Block 112)),
      CallShutdown texture_system_shutdown (Val (Block 80)),
      CallShutdown job_system_shutdown (Val (Block 72)),
      CallShutdown shader_system_shutdown (Val (Block 56)),
      CallShutdown renderer_system_shutdown (Val (Block 64)),
      CallShutdown resource_system_shutdown (Val (Block 48)),
      CallShutdown platform_system_shutdown (Val (Block 40)),
      CallShutdown input_system_shutdown (Val (Block 32)),
      CallShutdown logging_shutdown (Val (Block 24)),
      CallShutdown event_system_shutdown (Val (Block 16)),
      CallShutdown kvar_shutdown (Val (Block 8)),
      CallShutdown console_shutdown (Val (Block 0)),
      CallShutdown memory_system_shutdown Indeterminate]"
proof -
  have p: "list_all (populated example_header booted) shutdown_order"
    by code_simp
  have "distinct (map (k_system_type_id example_header) shutdown_order)"
    by code_simp
  then have i: "inj_on (k_system_type_id example_header) (set shutdown_order)"
    by (simp add: distinct_map)
  have calls: "map (shutdown_call_of example_header booted) shutdown_order =
     [CallShutdown camera_system_shutdown (Val (Block 96)),
      CallShutdown font_system_shutdown (Val (Block 88)),
      CallShutdown render_view_system_shutdown (Val (Block 104)),
      CallShutdown geometry_system_shutdown (Val (Block 120)),
      CallShutdown material_system_shutdown (Val (Block 112)),
      CallShutdown texture_system_shutdown (Val (Block 80)),
      CallShutdown job_system_shutdown (Val (Block 72)),
      CallShutdown shader_system_shutdown (Val (Block 56)),
      CallShutdown renderer_system_shutdown (Val (Block 64)),
      CallShutdown resource_system_shutdown (Val (Block 48)),
      CallShutdown platform_system_shutdown (Val (Block 40)),
      CallShutdown input_system_shutdown (Val (Block 32)),
      CallShutdown logging_shutdown (Val (Block 24)),
      CallShutdown event_system_shutdown (Val (Block 16)),
      CallShutdown kvar_shutdown (Val (Block 8)),
      CallShutdown console_shutdown (Val (Block 0)),
      CallShutdown memory_system_shutdown Indeterminate]"
    by code_simp
  from p i calls shutdown_reverse_order [OF p i, of "[]"] show ?thesis by blast
qed

text \<open>
  C10. When a registration with a null initialize returns true, the type is the memory
  type, and the slot holds the dispatch triple with \<^verbatim>\<open>state\<close> and \<^verbatim>\<open>state_size\<close> never
  assigned: both indeterminate. Whenever the shutdown pass later runs on a table whose
  memory slot is still that entry, its last call passes the indeterminate state to the
  shutdown function registered for the memory system.
\<close>

theorem memory_slot_state_indeterminate:
  assumes "systems_manager_register H E st type None sd up cfg tr = Inr (True, st', tr')"
  shows "type = k_system_type_id H K_SYSTEM_TYPE_MEMORY \<and>
         systems st' ! unat type =
           \<lparr>initialize = None, shutdown = sd, update = up, state = Indeterminate, state_size = Indeterminate\<rparr> \<and>
         (\<forall>st2 tr2 tr3.
            systems st2 ! unat type = systems st' ! unat type \<and>
            systems_manager_shutdown H st2 tr2 = Inr tr3 \<longrightarrow>
            sd \<noteq> None \<and> last tr3 = CallShutdown (the sd) Indeterminate)"
proof -
  from register_none_cases [OF assms]
  have ty: "type = k_system_type_id H K_SYSTEM_TYPE_MEMORY"
    and slot: "systems st' ! unat type =
      \<lparr>initialize = None, shutdown = sd, update = up, state = Indeterminate, state_size = Indeterminate\<rparr>"
    by auto
  have "sd \<noteq> None \<and> last tr3 = CallShutdown (the sd) Indeterminate"
    if same: "systems st2 ! unat type = systems st' ! unat type"
      and sh: "systems_manager_shutdown H st2 tr2 = Inr tr3" for st2 tr2 tr3
  proof -
    from sh have "shutdown_each H st2 shutdown_order tr2 = Inr tr3"
      by (simp add: systems_manager_shutdown_def shutdown_known_systems_order)
    from shutdown_each_trace [OF this]
    have tr3: "tr3 = tr2 @ map (shutdown_call_of H st2) shutdown_order"
      and pop: "list_all (populated H st2) shutdown_order" by simp_all
    from pop have "populated H st2 K_SYSTEM_TYPE_MEMORY" by (simp add: shutdown_order_def)
    with same slot ty have "sd \<noteq> None" by (simp add: populated_def)
    moreover from tr3 have "last tr3 = shutdown_call_of H st2 K_SYSTEM_TYPE_MEMORY"
      by (simp add: shutdown_order_def)
    ultimately show ?thesis using same slot ty by (simp add: shutdown_call_of_def)
  qed
  with ty slot show ?thesis by blast
qed

theorem memory_slot_state_indeterminate_witness:
  "systems_manager_register example_header (example_env 8 True) example_state 0
      None (Some memory_system_shutdown) None NoConfig [] =
     Inr (True, example_state\<lparr>systems := (systems example_state)[0 :=
            \<lparr>initialize = None, shutdown = Some memory_system_shutdown, update = None,
             state = Indeterminate, state_size = Indeterminate\<rparr>]\<rparr>, []) \<and>
   systems booted ! unat (0 :: u16) =
     \<lparr>initialize = None, shutdown = Some memory_system_shutdown, update = None,
      state = Indeterminate, state_size = Indeterminate\<rparr> \<and>
   map_sum id last (systems_manager_shutdown example_header booted []) =
     Inr (CallShutdown memory_system_shutdown Indeterminate)"
proof -
  let ?slot = "\<lparr>initialize = None, shutdown = Some memory_system_shutdown, update = None,
             state = Indeterminate, state_size = Indeterminate\<rparr>"
  let ?st = "example_state\<lparr>systems := (systems example_state)[0 := ?slot]\<rparr>"
  let ?tr = "map (shutdown_call_of example_header booted) shutdown_order"
  have h: "systems_manager_register example_header (example_env 8 True) example_state 0
      None (Some memory_system_shutdown) None NoConfig [] = Inr (True, ?st, [])"
    by code_simp
  have same: "systems booted ! unat (0 :: u16) = systems ?st ! unat (0 :: u16)"
    by code_simp
  have sh: "systems_manager_shutdown example_header booted [] = Inr ?tr"
    by code_simp
  from memory_slot_state_indeterminate [OF h] same sh
  have "last ?tr = CallShutdown (the (Some memory_system_shutdown)) Indeterminate"
    and "systems ?st ! unat (0 :: u16) = ?slot"
    by blast+
  with h same sh show ?thesis by simp
qed

section \<open>The boot passes\<close>

lemma run_steps_registration:
  "run_steps H E (Registration t init sd up cfg msg # ss) st tr =
   unless_failed (systems_manager_register H E st (k_system_type_id H t) init sd up cfg tr) msg
     (\<lambda>st tr. run_steps H E ss st tr)"
  by (auto simp add: unless_failed_def registration_step_def split: sum.splits)

lemma run_steps_single: "run_steps H E [s] st tr = run_step H E s st tr"
  by (cases "run_step H E s st tr") auto

lemma run_steps_views:
  "run_steps H E (map RenderViewCreation views @ ss) st tr =
   (case create_render_views E views tr of
      (False, tr1) \<Rightarrow> Inr (False, st, tr1)
    | (True, tr1) \<Rightarrow> run_steps H E ss st tr1)"
  by (induction views arbitrary: tr) (auto simp add: Let_def split: prod.splits)

lemma run_steps_nil: "run_steps H E [] = (\<lambda>st tr. Inr (True, st, tr))"
  by (intro ext) simp

text \<open>
  The subtraction \<^verbatim>\<open>platform_get_processor_count() - 1\<close> on \<^verbatim>\<open>i32\<close> is the subtraction on
  integers but at the least \<^verbatim>\<open>i32\<close>, where C leaves it undefined.
\<close>

lemma sint_minus_one:
  fixes p :: i32
  assumes "sint p \<noteq> - (2 ^ 31)"
  shows "sint (p - 1) = sint p - 1"
proof -
  have "- (2 ^ 31) \<le> sint p" and "sint p < 2 ^ 31"
    using sint_ge [of p] sint_lt [of p] by simp_all
  with assms have "- (2 ^ 31) \<le> sint p - 1" and "sint p - 1 < 2 ^ 31" by simp_all
  then have "signed_take_bit 31 (sint p - 1) = sint p - 1"
    by (simp add: signed_take_bit_int_eq_self)
  then show ?thesis by (simp add: sint_word_ariths)
qed

lemma job_scheduling_step_refines:
  assumes "register_job_system H E st tr \<noteq> Inl SignedOverflow"
  shows "register_job_system H E st tr = run_step H E JobSchedulingRegistration st tr"
proof -
  let ?p = "platform_get_processor_count E (tr @ [CallRendererIsMultithreaded])"
  from assms have p: "sint ?p \<noteq> - (2 ^ 31)"
    by (auto simp add: register_job_system_def Let_def)
  have n: "sint (?p - 1) = sint ?p - 1" by (rule sint_minus_one [OF p])
  have below: "(?p - 1 <s 1) = (sint ?p - 1 < 1)"
    by (simp add: word_sless_alt n)
  have above: "(max_thread_count <s ?p - 1) = (15 < sint ?p - 1)"
    by (simp add: word_sless_alt n max_thread_count_def)
  have small: "word_of_int (min (sint ?p - 1) 15) = ?p - 1" if "\<not> 15 < sint ?p - 1"
  proof -
    from that have "min (sint ?p - 1) 15 = sint (?p - 1)" by (simp add: n)
    then show ?thesis by simp
  qed
  have large: "word_of_int (min (sint ?p - 1) 15) = max_thread_count" if "15 < sint ?p - 1"
    using that by (simp add: max_thread_count_def)
  have fifteen: "sint max_thread_count = 15" by (simp add: max_thread_count_def)
  show ?thesis
  proof (cases "sint ?p - 1 < 1")
    case True
    with p below n show ?thesis
      by (simp add: register_job_system_def Let_def)
  next
    case False
    show ?thesis
    proof (cases "15 < sint ?p - 1")
      case True
      with False p below above n large fifteen show ?thesis
        by (simp add: register_job_system_def Let_def unless_failed_def registration_step_def
                 split: sum.splits)
    next
      case notcapped: False
      with False p below above n small show ?thesis
        by (simp add: register_job_system_def Let_def unless_failed_def registration_step_def
                 split: sum.splits)
    qed
  qed
qed

lemma unless_failed_rest:
  "unless_failed r msg rest \<noteq> Inl SignedOverflow \<Longrightarrow>
   (\<And>st tr. rest st tr \<noteq> Inl SignedOverflow \<Longrightarrow> rest st tr = rest' st tr) \<Longrightarrow>
   unless_failed r msg rest = unless_failed r msg rest'"
  by (cases r) (auto simp add: unless_failed_def)

lemma pre_boot_refines:
  assumes "register_known_systems_pre_boot H E st app_config tr \<noteq> Inl SignedOverflow"
  shows "register_known_systems_pre_boot H E st app_config tr =
         run_steps H E (pre_boot_steps app_config) st tr"
  using assms
  unfolding register_known_systems_pre_boot_def pre_boot_steps_def
  apply (simp only: run_steps_registration run_steps_single)
  apply (erule unless_failed_rest)+
  apply (erule job_scheduling_step_refines)
  done

lemma post_boot_refines:
  "register_known_systems_post_boot H E st app_config tr = run_steps H E (post_boot_steps app_config) st tr"
  by (simp add: register_known_systems_post_boot_def post_boot_steps_def run_steps_registration
        run_steps_views run_steps_nil del: run_steps.simps cong: prod.case_cong bool.case_cong)

text \<open>
  What \<open>run_steps\<close> means when it returns false: some step \<open>k\<close> returned false after the
  steps before it returned true, and the state and the calls are those the step \<open>k\<close> left:
  no later step has run.
\<close>

lemma run_steps_stops_at_first_failure:
  "run_steps H E ss st tr = Inr (False, st', tr') \<Longrightarrow>
   \<exists>k st1 tr1. k < length ss \<and> run_steps H E (take k ss) st tr = Inr (True, st1, tr1) \<and>
     run_step H E (ss ! k) st1 tr1 = Inr (False, st', tr')"
proof (induction ss arbitrary: st tr)
  case Nil
  then show ?case by simp
next
  case (Cons s ss)
  show ?case
  proof (cases "run_step H E s st tr")
    case (Inl e)
    with Cons.prems show ?thesis by simp
  next
    case (Inr r)
    obtain ok st1 tr1 where r: "r = (ok, st1, tr1)" by (cases r)
    show ?thesis
    proof (cases ok)
      case True
      with Inr r Cons.prems have "run_steps H E ss st1 tr1 = Inr (False, st', tr')" by simp
      from Cons.IH [OF this] obtain k st2 tr2 where
        "k < length ss" "run_steps H E (take k ss) st1 tr1 = Inr (True, st2, tr2)"
        "run_step H E (ss ! k) st2 tr2 = Inr (False, st', tr')" by blast
      with Inr r True show ?thesis
        by (intro exI [of _ "Suc k"] exI [of _ st2] exI [of _ tr2]) simp
    next
      case False
      with Inr r Cons.prems show ?thesis
        by (intro exI [of _ 0] exI [of _ st] exI [of _ tr]) simp
    qed
  qed
qed

text \<open>
  C7. Each boot pass is its list of steps run in order, the first step that returns false
  ending the pass with false and no later step run. The steps of the pre-boot pass
  register, in this order, memory, console, configuration-variables, events, logging,
  input, platform, resource-loading, shader, renderer, job-scheduling, the last one after
  the thread count is derived and only when it is at least 1; those of the post-boot pass
  register texture, font, camera and render-view, create one render view for each view of
  the application configuration, then register material and geometry. The pre-boot pass
  is set apart where it ends in the undefined subtraction at the least \<^verbatim>\<open>i32\<close>.
\<close>

theorem boot_passes_run_steps_in_order:
  "(register_known_systems_pre_boot H E st app_config tr \<noteq> Inl SignedOverflow \<longrightarrow>
      register_known_systems_pre_boot H E st app_config tr =
      run_steps H E (pre_boot_steps app_config) st tr) \<and>
   map kind_of (pre_boot_steps app_config) =
     map Registers
       [K_SYSTEM_TYPE_MEMORY, K_SYSTEM_TYPE_CONSOLE, K_SYSTEM_TYPE_KVAR, K_SYSTEM_TYPE_EVENT,
        K_SYSTEM_TYPE_LOGGING, K_SYSTEM_TYPE_INPUT, K_SYSTEM_TYPE_PLATFORM, K_SYSTEM_TYPE_RESOURCE,
        K_SYSTEM_TYPE_SHADER, K_SYSTEM_TYPE_RENDERER, K_SYSTEM_TYPE_JOB] \<and>
   register_known_systems_post_boot H E st app_config tr = run_steps H E (post_boot_steps app_config) st tr \<and>
   map kind_of (post_boot_steps app_config) =
     map Registers [K_SYSTEM_TYPE_TEXTURE, K_SYSTEM_TYPE_FONT, K_SYSTEM_TYPE_CAMERA, K_SYSTEM_TYPE_RENDER_VIEW]
     @ map CreatesView (render_views app_config)
     @ map Registers [K_SYSTEM_TYPE_MATERIAL, K_SYSTEM_TYPE_GEOMETRY]"
proof -
  have "map kind_of (pre_boot_steps app_config) =
     map Registers
       [K_SYSTEM_TYPE_MEMORY, K_SYSTEM_TYPE_CONSOLE, K_SYSTEM_TYPE_KVAR, K_SYSTEM_TYPE_EVENT,
        K_SYSTEM_TYPE_LOGGING, K_SYSTEM_TYPE_INPUT, K_SYSTEM_TYPE_PLATFORM, K_SYSTEM_TYPE_RESOURCE,
        K_SYSTEM_TYPE_SHADER, K_SYSTEM_TYPE_RENDERER, K_SYSTEM_TYPE_JOB]"
    by (simp add: pre_boot_steps_def)
  moreover have "map kind_of (post_boot_steps app_config) =
     map Registers [K_SYSTEM_TYPE_TEXTURE, K_SYSTEM_TYPE_FONT, K_SYSTEM_TYPE_CAMERA, K_SYSTEM_TYPE_RENDER_VIEW]
     @ map CreatesView (render_views app_config)
     @ map Registers [K_SYSTEM_TYPE_MATERIAL, K_SYSTEM_TYPE_GEOMETRY]"
    by (simp add: post_boot_steps_def comp_def)
  ultimately show ?thesis
    using pre_boot_refines [of H E st app_config tr] post_boot_refines [of H E st app_config tr]
    by simp
qed

theorem boot_passes_run_steps_in_order_witness:
  "register_known_systems_pre_boot example_header (example_env 1 True) example_state example_app [] \<noteq>
     Inl SignedOverflow \<and>
   register_known_systems_pre_boot example_header (example_env 1 True) example_state example_app [] =
     run_steps example_header (example_env 1 True) (pre_boot_steps example_app) example_state [] \<and>
   returned (register_known_systems_pre_boot example_header (example_env 1 True) example_state example_app [])
     = Some False \<and>
   register_known_systems_pre_boot example_header (example_env 8 True) example_state example_app [] \<noteq>
     Inl SignedOverflow \<and>
   register_known_systems_pre_boot example_header (example_env 8 True) example_state example_app [] =
     run_steps example_header (example_env 8 True) (pre_boot_steps example_app) example_state [] \<and>
   map_option last
     (trace_after (run_steps example_header (example_env 8 True) (pre_boot_steps example_app)
        example_state [])) =
     Some (CallInitialize job_system_initialize (Val 8) (Block 72)
             (JobSystemConfig 7 [8, 4, 2, 2, 2, 2, 2, 2, 2, 2, 2, 2, 2, 2, 2])) \<and>
   register_known_systems_post_boot example_header view_creation_fails example_state example_app [] =
     run_steps example_header view_creation_fails (post_boot_steps example_app) example_state [] \<and>
   returned (register_known_systems_post_boot example_header view_creation_fails example_state example_app [])
     = Some False \<and>
   map_option last
     (trace_after (register_known_systems_post_boot example_header view_creation_fails example_state
        example_app [])) =
     Some (Log FATAL ''Failed to create view '%s'. Aborting application.'' [ArgStr ''world'']) \<and>
   map kind_of (post_boot_steps example_app) =
     [Registers K_SYSTEM_TYPE_TEXTURE, Registers K_SYSTEM_TYPE_FONT, Registers K_SYSTEM_TYPE_CAMERA,
      Registers K_SYSTEM_TYPE_RENDER_VIEW, CreatesView ''world'', CreatesView ''ui'',
      Registers K_SYSTEM_TYPE_MATERIAL, Registers K_SYSTEM_TYPE_GEOMETRY]"
proof -
  have one: "register_known_systems_pre_boot example_header (example_env 1 True) example_state example_app []
      \<noteq> Inl SignedOverflow"
    by code_simp
  have eight: "register_known_systems_pre_boot example_header (example_env 8 True) example_state
      example_app [] \<noteq> Inl SignedOverflow"
    by code_simp
  have pre: "returned (register_known_systems_pre_boot example_header (example_env 1 True) example_state
      example_app []) = Some False"
    by code_simp
  have job: "map_option last
     (trace_after (run_steps example_header (example_env 8 True) (pre_boot_steps example_app)
        example_state [])) =
     Some (CallInitialize job_system_initialize (Val 8) (Block 72)
             (JobSystemConfig 7 [8, 4, 2, 2, 2, 2, 2, 2, 2, 2, 2, 2, 2, 2, 2]))"
    by code_simp
  have post: "returned (register_known_systems_post_boot example_header view_creation_fails example_state
      example_app []) = Some False"
    by code_simp
  have fatal: "map_option last
     (trace_after (register_known_systems_post_boot example_header view_creation_fails example_state
        example_app [])) =
     Some (Log FATAL ''Failed to create view '%s'. Aborting application.'' [ArgStr ''world''])"
    by code_simp
  have views: "render_views example_app = [''world'', ''ui'']"
    by (simp add: example_app_def)
  from boot_passes_run_steps_in_order [of example_header "example_env 1 True" example_state example_app "[]"]
    boot_passes_run_steps_in_order [of example_header "example_env 8 True" example_state example_app "[]"]
    boot_passes_run_steps_in_order [of example_header view_creation_fails example_state example_app "[]"]
    one eight pre job post fatal views
  show ?thesis by simp
qed

section \<open>The work-type masks of the job threads\<close>

text \<open>
  The masks do not depend on the thread count: both comparisons of the source read the
  constant \<^verbatim>\<open>max_thread_count\<close>, which is 15. With a renderer that is not multithreaded thread
  0 has the three flags; with one that is, threads 0 and 1 are dedicated, whatever the
  thread count.
\<close>

lemma job_thread_types_not_multithreaded:
  "job_thread_types H False =
     (JOB_TYPE_GENERAL H OR (JOB_TYPE_GPU_RESOURCE H OR JOB_TYPE_RESOURCE_LOAD H)) #
     replicate 14 (JOB_TYPE_GENERAL H)"
proof -
  have "replicate 15 (JOB_TYPE_GENERAL H) = JOB_TYPE_GENERAL H # replicate 14 (JOB_TYPE_GENERAL H)"
    by (simp add: numeral_eq_Suc)
  then show ?thesis by (simp add: job_thread_types_def)
qed

lemma job_thread_types_multithreaded:
  "job_thread_types H True =
     JOB_TYPE_GPU_RESOURCE H # JOB_TYPE_RESOURCE_LOAD H # replicate 13 (JOB_TYPE_GENERAL H)"
proof -
  have "replicate 15 (JOB_TYPE_GENERAL H) =
      JOB_TYPE_GENERAL H # JOB_TYPE_GENERAL H # replicate 13 (JOB_TYPE_GENERAL H)"
    by (simp add: numeral_eq_Suc)
  moreover have "max_thread_count \<noteq> 1" and "max_thread_count \<noteq> 2"
    by (simp_all add: max_thread_count_def)
  ultimately show ?thesis by (simp add: job_thread_types_def)
qed

text \<open>
  C1 does not hold of the code. With 2 logical processors and a multithreaded renderer the
  thread count is 1 and the job system is registered with thread 0 dedicated to
  GPU-resource work (mask 8 of the instance), where the claim has
  general|GPU-resource|resource-load (mask 14).
\<close>

theorem job_thread_masks_at_two_processors:
  "trace_after (register_job_system example_header (example_env 2 True) example_state []) =
     Some [CallRendererIsMultithreaded, CallPlatformGetProcessorCount,
           Log TRACE ''Available threads: %i'' [ArgInt 1],
           CallInitialize job_system_initialize Indeterminate Null
             (JobSystemConfig 1 [8, 4, 2, 2, 2, 2, 2, 2, 2, 2, 2, 2, 2, 2, 2]),
           CallInitialize job_system_initialize (Val 8) (Block 0)
             (JobSystemConfig 1 [8, 4, 2, 2, 2, 2, 2, 2, 2, 2, 2, 2, 2, 2, 2])] \<and>
   JOB_TYPE_GPU_RESOURCE example_header = 8 \<and>
   JOB_TYPE_GENERAL example_header OR JOB_TYPE_GPU_RESOURCE example_header OR
     JOB_TYPE_RESOURCE_LOAD example_header = 14"
  by code_simp

end
